theory Spec2Isabelle
  imports Main
begin

text \<open>
  The token lifecycle of the Dropbox integration: \<^verbatim>\<open>DropboxService.isTokenExpired\<close>,
  \<^verbatim>\<open>refreshAccessToken\<close> and \<^verbatim>\<open>ensureValidToken\<close> (backend/services/dropboxService.js)
  together with \<^verbatim>\<open>Account.update\<close> (models/Account.js), as functions over an explicit
  world: the accounts table, the log of refresh requests sent to the token endpoint, and
  the clock. A thrown \<^verbatim>\<open>Error\<close> is the left summand of the result.
\<close>

section \<open>JavaScript values\<close>

text \<open>
  Every failure of the service is a plain JavaScript \<^verbatim>\<open>Error\<close> carrying a message;
  the source defines no error classes of its own.
\<close>

datatype js_error = Error string

text \<open>
  A property that holds a string when it is there: \<^verbatim>\<open>undefined\<close>, \<^verbatim>\<open>null\<close>
  or the string. A column of the accounts table is \<^verbatim>\<open>NULL\<close> or text, so a field
  of a loaded account is a \<open>string option\<close>.
\<close>

datatype jsstr = Undefined | Null | Str string

fun truthy :: "jsstr \<Rightarrow> bool" where
  "truthy Undefined = False"
| "truthy Null = False"
| "truthy (Str s) = (s \<noteq> [])"

fun of_sql :: "string option \<Rightarrow> jsstr" where
  "of_sql None = Null"
| "of_sql (Some s) = Str s"

definition present :: "string option \<Rightarrow> bool" where
  "present x = truthy (of_sql x)"

text \<open>\<^verbatim>\<open>a || b\<close> on string-valued properties.\<close>

definition js_or :: "jsstr \<Rightarrow> jsstr \<Rightarrow> jsstr" where
  "js_or a b = (if truthy a then a else b)"

text \<open>
  A property that holds a number when it is what it should be: what the JSON of an
  answer can put in its place is \<^verbatim>\<open>undefined\<close> (left out), \<^verbatim>\<open>null\<close>, a boolean,
  a number (taken to be whole) or a string.
\<close>

datatype jsnum = NumUndefined | NumNull | NumBool bool | Num int | NumStr string

text \<open>
  A \<^verbatim>\<open>Date\<close> holds a time value in milliseconds, or \<^verbatim>\<open>NaN\<close> (here \<open>None\<close>) when
  the argument is not a number or lies outside the range of time values.
\<close>

definition max_time :: int where
  "max_time = 8640000000000000"

definition new_Date :: "int option \<Rightarrow> int option" where
  "new_Date v = (case v of None \<Rightarrow> None
                 | Some t \<Rightarrow> if \<bar>t\<bar> \<le> max_time then Some t else None)"

text \<open>\<^verbatim>\<open>d1 <= d2\<close> on dates compares the time values; a comparison with \<^verbatim>\<open>NaN\<close> is false.\<close>

fun date_le :: "int option \<Rightarrow> int option \<Rightarrow> bool" where
  "date_le (Some a) (Some b) = (a \<le> b)"
| "date_le _ _ = False"

section \<open>The environment and the world\<close>

text \<open>What the token endpoint answers to a refresh request, as axios reports it.\<close>

datatype axios_error =
    NetworkError string
  | HttpError jsstr string

record token_response =
  access_token :: jsstr
  refresh_token :: jsstr
  expires_in :: jsnum

datatype exchange = Failed axios_error | Responded token_response

text \<open>\<^verbatim>\<open>error.response?.data?.error_description || error.message\<close>\<close>

fun error_detail :: "axios_error \<Rightarrow> string" where
  "error_detail (NetworkError m) = m"
| "error_detail (HttpError (Str d) m) = (if d = [] then m else d)"
| "error_detail (HttpError _ m) = m"

text \<open>
  The parts of the platform the service calls and does not define: the parser of date
  strings, the conversion of a string to a number (\<^verbatim>\<open>NaN\<close> is \<open>None\<close>),
  \<^verbatim>\<open>Date.prototype.toISOString\<close> on a valid time value, \<^verbatim>\<open>JSON.stringify\<close> on
  the brand colours, the answer of the token endpoint (which may depend on the requests
  it has already seen), the duration of that round trip, and the error SQLite raises
  on a write, if any.
\<close>

record 'c env =
  date_parse :: "string \<Rightarrow> int option"
  number_parse :: "string \<Rightarrow> int option"
  iso_string :: "int \<Rightarrow> string"
  stringify :: "'c \<Rightarrow> string"
  provider :: "string list \<Rightarrow> string \<Rightarrow> exchange"
  latency :: nat
  db_write_error :: "string option"

text \<open>
  The number an arithmetic operator sees in a value: \<^verbatim>\<open>undefined\<close> is \<^verbatim>\<open>NaN\<close>,
  \<^verbatim>\<open>null\<close> is 0, \<^verbatim>\<open>true\<close> is 1, \<^verbatim>\<open>false\<close> is 0, a string is what the platform
  reads in it.
\<close>

fun ToNumber :: "'c env \<Rightarrow> jsnum \<Rightarrow> int option" where
  "ToNumber e NumUndefined = None"
| "ToNumber e NumNull = Some 0"
| "ToNumber e (NumBool b) = Some (if b then 1 else 0)"
| "ToNumber e (Num n) = Some n"
| "ToNumber e (NumStr s) = number_parse e s"

record account_row =
  row_id :: string
  row_dropboxAccessToken :: "string option"
  row_dropboxRefreshToken :: "string option"
  row_dropboxTokenExpiresAt :: "string option"
  row_brandLogo :: "string option"
  row_brandColors :: string
  row_createdAt :: string
  row_updatedAt :: string

text \<open>
  The world: the accounts table keyed by its primary key, the refresh tokens posted to
  the token endpoint so far, and the clock read by \<^verbatim>\<open>Date.now()\<close>.
\<close>

record world =
  db :: "string \<rightharpoonup> account_row"
  requests :: "string list"
  clock :: int

section \<open>The account model\<close>

record 'c account =
  acc_id :: string
  dropboxAccessToken :: "string option"
  dropboxRefreshToken :: "string option"
  dropboxTokenExpiresAt :: "string option"
  brandLogo :: "string option"
  brandColors :: 'c
  createdAt :: string
  updatedAt :: string

text \<open>The argument of \<^verbatim>\<open>Account.update\<close>: a property left out is \<^verbatim>\<open>undefined\<close>.\<close>

record 'c updates =
  upd_dropboxAccessToken :: jsstr
  upd_dropboxRefreshToken :: jsstr
  upd_dropboxTokenExpiresAt :: jsstr
  upd_brandLogo :: jsstr
  upd_brandColors :: "'c option"

text \<open>\<^verbatim>\<open>updates.f !== undefined ? updates.f : this.f\<close>\<close>

fun merge :: "jsstr \<Rightarrow> string option \<Rightarrow> string option" where
  "merge Undefined old = old"
| "merge Null old = None"
| "merge (Str s) old = Some s"

definition merge_colors :: "'c option \<Rightarrow> 'c \<Rightarrow> 'c" where
  "merge_colors u old = (case u of None \<Rightarrow> old | Some c \<Rightarrow> c)"

text \<open>
  \<^verbatim>\<open>Account.update\<close>: merge, run the \<^verbatim>\<open>UPDATE ... WHERE id = ?\<close> (which sets neither
  \<^verbatim>\<open>id\<close> nor \<^verbatim>\<open>createdAt\<close> and touches no row when none has that id), then assign
  the merged values to the instance and return it.
\<close>

definition Account_update ::
  "'c env \<Rightarrow> world \<Rightarrow> 'c account \<Rightarrow> 'c updates \<Rightarrow> (js_error + 'c account) \<times> world" where
  "Account_update e w a u =
     (let now = iso_string e (clock w);
          tok = merge (upd_dropboxAccessToken u) (dropboxAccessToken a);
          rtok = merge (upd_dropboxRefreshToken u) (dropboxRefreshToken a);
          exp = merge (upd_dropboxTokenExpiresAt u) (dropboxTokenExpiresAt a);
          logo = merge (upd_brandLogo u) (brandLogo a);
          cols = merge_colors (upd_brandColors u) (brandColors a)
      in case db_write_error e of
           Some m \<Rightarrow> (Inl (Error (''Failed to update account: '' @ m)), w)
         | None \<Rightarrow>
             (Inr (a\<lparr>dropboxAccessToken := tok, dropboxRefreshToken := rtok,
                     dropboxTokenExpiresAt := exp, brandLogo := logo,
                     brandColors := cols, updatedAt := now\<rparr>),
              w\<lparr>db := (case db w (acc_id a) of
                          None \<Rightarrow> db w
                        | Some r \<Rightarrow> (db w)(acc_id a \<mapsto>
                            r\<lparr>row_dropboxAccessToken := tok,
                              row_dropboxRefreshToken := rtok,
                              row_dropboxTokenExpiresAt := exp,
                              row_brandLogo := logo,
                              row_brandColors := stringify e cols,
                              row_updatedAt := now\<rparr>))\<rparr>))"

section \<open>The Dropbox service\<close>

record service =
  clientId :: "string option"
  clientSecret :: "string option"

definition isAvailable :: "service \<Rightarrow> bool" where
  "isAvailable s = (clientId s \<noteq> None \<and> clientSecret s \<noteq> None)"

record refresh_result =
  res_access_token :: jsstr
  res_refresh_token :: jsstr
  res_expires_in :: jsnum
  res_expires_at :: string

text \<open>
  \<^verbatim>\<open>refreshAccessToken\<close>: the two guards, then the request. Whatever is thrown after
  the request is sent (by axios, or by \<^verbatim>\<open>toISOString\<close> on an invalid date) is caught
  and thrown again as one \<^verbatim>\<open>Error\<close>. The expiry is
  \<^verbatim>\<open>new Date(Date.now() + (response.data.expires_in * 1000))\<close>: an invalid date when
  the lifetime is left out or is no number, the time of the answer when it is \<^verbatim>\<open>null\<close>.
\<close>

definition refreshAccessToken ::
  "'c env \<Rightarrow> service \<Rightarrow> world \<Rightarrow> string option \<Rightarrow> (js_error + refresh_result) \<times> world" where
  "refreshAccessToken e s w refreshToken =
     (if \<not> isAvailable s then (Inl (Error ''Dropbox OAuth credentials not configured''), w)
      else case refreshToken of
        None \<Rightarrow> (Inl (Error ''Refresh token is required''), w)
      | Some rt \<Rightarrow>
          if rt = [] then (Inl (Error ''Refresh token is required''), w)
          else
            let w' = w\<lparr>requests := requests w @ [rt], clock := clock w + int (latency e)\<rparr>
            in case provider e (requests w) rt of
                 Failed err \<Rightarrow>
                   (Inl (Error (''Failed to refresh access token: '' @ error_detail err)), w')
               | Responded d \<Rightarrow>
                   (case new_Date (map_option (\<lambda>n. clock w' + n * 1000)
                                     (ToNumber e (expires_in d))) of
                      None \<Rightarrow>
                        (Inl (Error (''Failed to refresh access token: '' @ ''Invalid time value'')), w')
                    | Some t \<Rightarrow>
                        (Inr \<lparr>res_access_token = access_token d,
                              res_refresh_token = js_or (refresh_token d) (Str rt),
                              res_expires_in = expires_in d,
                              res_expires_at = iso_string e t\<rparr>, w')))"

text \<open>
  \<^verbatim>\<open>new Date(s)\<close> on a string: the empty string is never a date; any other string is
  handed to the platform's parser.
\<close>

definition Date_of_string :: "'c env \<Rightarrow> string \<Rightarrow> int option" where
  "Date_of_string e s = (if s = [] then None else new_Date (date_parse e s))"

definition isTokenExpired :: "'c env \<Rightarrow> int \<Rightarrow> string option \<Rightarrow> int \<Rightarrow> bool" where
  "isTokenExpired e now expiresAt bufferMinutes =
     (case expiresAt of
        None \<Rightarrow> True
      | Some s \<Rightarrow>
          if s = [] then True
          else date_le (Date_of_string e s)
                       (new_Date (Some (now + bufferMinutes * 60 * 1000))))"

definition default_bufferMinutes :: int where
  "default_bufferMinutes = 5"

definition no_token_msg :: string where
  "no_token_msg = ''No access token available''"

definition reauth_msg :: string where
  "reauth_msg = ''Access token expired and no refresh token available. Please re-authenticate.''"

definition ensureValidToken ::
  "'c env \<Rightarrow> service \<Rightarrow> world \<Rightarrow> 'c account option \<Rightarrow> (js_error + 'c account) \<times> world" where
  "ensureValidToken e s w account =
     (case account of
        None \<Rightarrow> (Inl (Error no_token_msg), w)
      | Some a \<Rightarrow>
          if \<not> present (dropboxAccessToken a) then (Inl (Error no_token_msg), w)
          else if isTokenExpired e (clock w) (dropboxTokenExpiresAt a) default_bufferMinutes then
            if \<not> present (dropboxRefreshToken a) then (Inl (Error reauth_msg), w)
            else
              case refreshAccessToken e s w (dropboxRefreshToken a) of
                (Inl (Error m), w1) \<Rightarrow> (Inl (Error (''Token refresh failed: '' @ m)), w1)
              | (Inr res, w1) \<Rightarrow>
                  (case Account_update e w1 a
                          \<lparr>upd_dropboxAccessToken = res_access_token res,
                           upd_dropboxRefreshToken = res_refresh_token res,
                           upd_dropboxTokenExpiresAt = Str (res_expires_at res),
                           upd_brandLogo = Undefined,
                           upd_brandColors = None\<rparr> of
                     (Inl (Error m), w2) \<Rightarrow> (Inl (Error (''Token refresh failed: '' @ m)), w2)
                   | (Inr a', w2) \<Rightarrow> (Inr a', w2))
          else (Inr a, w))"

text \<open>
  The frontend's \<^verbatim>\<open>DropboxService.isTokenExpired\<close>, a second copy of the predicate
  written out in the browser code.
\<close>

definition isTokenExpired_frontend :: "'c env \<Rightarrow> int \<Rightarrow> string option \<Rightarrow> int \<Rightarrow> bool" where
  "isTokenExpired_frontend e now expiresAt bufferMinutes =
     (case expiresAt of
        None \<Rightarrow> True
      | Some s \<Rightarrow>
          if s = [] then True
          else
            let expirationTime = Date_of_string e s;
                bufferTime = new_Date (Some (now + bufferMinutes * 60 * 1000))
            in date_le expirationTime bufferTime)"

section \<open>Calls in flight\<close>

text \<open>
  \<^verbatim>\<open>ensureValidToken\<close> is an async function: a call runs without interruption up to
  \<^verbatim>\<open>await axios.post(...)\<close>, where the request has been sent, and is resumed when the
  answer arrives; other calls may run in between. A call is therefore not yet started,
  waiting for the answer to the request it sent, or finished.
\<close>

datatype 'c call =
    Called "'c account option"
  | Awaiting "'c account" string exchange
  | Finished "js_error + 'c account"

text \<open>The part of a call before the request is answered.\<close>

definition ensureValidToken_begin ::
  "'c env \<Rightarrow> service \<Rightarrow> world \<Rightarrow> 'c account option \<Rightarrow> 'c call \<times> world" where
  "ensureValidToken_begin e s w account =
     (case account of
        None \<Rightarrow> (Finished (Inl (Error no_token_msg)), w)
      | Some a \<Rightarrow>
          if \<not> present (dropboxAccessToken a) then (Finished (Inl (Error no_token_msg)), w)
          else if isTokenExpired e (clock w) (dropboxTokenExpiresAt a) default_bufferMinutes then
            if \<not> present (dropboxRefreshToken a) then (Finished (Inl (Error reauth_msg)), w)
            else if \<not> isAvailable s then
              (Finished (Inl (Error (''Token refresh failed: '' @
                                     ''Dropbox OAuth credentials not configured''))), w)
            else
              case dropboxRefreshToken a of
                None \<Rightarrow>
                  (Finished (Inl (Error (''Token refresh failed: '' @
                                         ''Refresh token is required''))), w)
              | Some rt \<Rightarrow>
                  if rt = [] then
                    (Finished (Inl (Error (''Token refresh failed: '' @
                                           ''Refresh token is required''))), w)
                  else (Awaiting a rt (provider e (requests w) rt),
                        w\<lparr>requests := requests w @ [rt]\<rparr>)
          else (Finished (Inr a), w))"

text \<open>The part of a call after the answer has arrived.\<close>

definition ensureValidToken_resume ::
  "'c env \<Rightarrow> world \<Rightarrow> 'c account \<Rightarrow> string \<Rightarrow> exchange \<Rightarrow> (js_error + 'c account) \<times> world" where
  "ensureValidToken_resume e w a rt x =
     (case x of
        Failed err \<Rightarrow>
          (Inl (Error (''Token refresh failed: '' @
                       ''Failed to refresh access token: '' @ error_detail err)), w)
      | Responded d \<Rightarrow>
          (case new_Date (map_option (\<lambda>n. clock w + n * 1000) (ToNumber e (expires_in d))) of
             None \<Rightarrow>
               (Inl (Error (''Token refresh failed: '' @
                            ''Failed to refresh access token: '' @ ''Invalid time value'')), w)
           | Some t \<Rightarrow>
               (case Account_update e w a
                       \<lparr>upd_dropboxAccessToken = access_token d,
                        upd_dropboxRefreshToken = js_or (refresh_token d) (Str rt),
                        upd_dropboxTokenExpiresAt = Str (iso_string e t),
                        upd_brandLogo = Undefined,
                        upd_brandColors = None\<rparr> of
                  (Inl (Error m), w2) \<Rightarrow> (Inl (Error (''Token refresh failed: '' @ m)), w2)
                | (Inr a', w2) \<Rightarrow> (Inr a', w2))))"

text \<open>
  What can happen next: the call with a given index runs its next part, or time passes.
  A schedule is a list of such events.
\<close>

datatype event = Run nat | Tick nat

fun fire :: "'c env \<Rightarrow> service \<Rightarrow> world \<times> 'c call list \<Rightarrow> event \<Rightarrow> world \<times> 'c call list" where
  "fire e s (w, cs) (Tick d) = (w\<lparr>clock := clock w + int d\<rparr>, cs)"
| "fire e s (w, cs) (Run i) =
     (if i < length cs then
        (case cs ! i of
           Called account \<Rightarrow>
             (case ensureValidToken_begin e s w account of (c, w') \<Rightarrow> (w', cs[i := c]))
         | Awaiting a rt x \<Rightarrow>
             (case ensureValidToken_resume e w a rt x of (r, w') \<Rightarrow> (w', cs[i := Finished r]))
         | Finished r \<Rightarrow> (w, cs))
      else (w, cs))"

definition run :: "'c env \<Rightarrow> service \<Rightarrow> event list \<Rightarrow> world \<times> 'c call list \<Rightarrow> world \<times> 'c call list" where
  "run e s evs cfg = foldl (fire e s) cfg evs"

text \<open>The access token a finished call hands to its caller.\<close>

fun received :: "'c call \<Rightarrow> string option" where
  "received (Finished (Inr a)) = dropboxAccessToken a"
| "received _ = None"

text \<open>A call has started once it is past its first part.\<close>

definition started :: "'c call \<Rightarrow> bool" where
  "started c = (case c of Called _ \<Rightarrow> False | _ \<Rightarrow> True)"

section \<open>A concrete setting\<close>

text \<open>
  An account holding \<^verbatim>\<open>A1\<close>/\<^verbatim>\<open>R1\<close> whose token ran out ten seconds ago, and a token
  endpoint that answers \<^verbatim>\<open>A2\<close>, valid for an hour, without a new refresh token.
\<close>

definition ex_parse :: "string \<Rightarrow> int option" where
  "ex_parse s =
     (if s = ''2023-11-14T22:13:10.000Z'' then Some 1699999990000
      else if s = ''2023-11-14T23:13:20.250Z'' then Some 1700003600250
      else None)"

definition ex_iso :: "int \<Rightarrow> string" where
  "ex_iso t =
     (if t = 1700003600250 then ''2023-11-14T23:13:20.250Z''
      else if t = 1700000000250 then ''2023-11-14T22:13:20.250Z''
      else ''1970-01-01T00:00:00.000Z'')"

definition ex_response :: "string \<Rightarrow> token_response" where
  "ex_response tok = \<lparr>access_token = Str tok, refresh_token = Undefined, expires_in = Num 3600\<rparr>"

definition ex_env :: "string env" where
  "ex_env = \<lparr>date_parse = ex_parse, number_parse = (\<lambda>s. None), iso_string = ex_iso, stringify = (\<lambda>c. c),
             provider = (\<lambda>hist rt. Responded (ex_response ''A2'')),
             latency = 250, db_write_error = None\<rparr>"

definition ex_service :: service where
  "ex_service = \<lparr>clientId = Some ''app-key'', clientSecret = Some ''app-secret''\<rparr>"

definition ex_account :: "string account" where
  "ex_account = \<lparr>acc_id = ''default_account'',
                 dropboxAccessToken = Some ''A1'',
                 dropboxRefreshToken = Some ''R1'',
                 dropboxTokenExpiresAt = Some ''2023-11-14T22:13:10.000Z'',
                 brandLogo = None,
                 brandColors = ''{}'',
                 createdAt = ''2023-11-01T00:00:00.000Z'',
                 updatedAt = ''2023-11-14T18:13:10.000Z''\<rparr>"

definition ex_row :: account_row where
  "ex_row = \<lparr>row_id = ''default_account'',
             row_dropboxAccessToken = Some ''A1'',
             row_dropboxRefreshToken = Some ''R1'',
             row_dropboxTokenExpiresAt = Some ''2023-11-14T22:13:10.000Z'',
             row_brandLogo = None,
             row_brandColors = ''{}'',
             row_createdAt = ''2023-11-01T00:00:00.000Z'',
             row_updatedAt = ''2023-11-14T18:13:10.000Z''\<rparr>"

definition ex_world :: world where
  "ex_world = \<lparr>db = [''default_account'' \<mapsto> ex_row], requests = [], clock = 1700000000000\<rparr>"

text \<open>A token endpoint that cannot be reached, and one that rejects the refresh token.\<close>

definition ex_env_timeout :: "string env" where
  "ex_env_timeout = ex_env\<lparr>provider := (\<lambda>hist rt. Failed (NetworkError ''Network Error''))\<rparr>"

definition ex_env_rejected :: "string env" where
  "ex_env_rejected =
     ex_env\<lparr>provider := (\<lambda>hist rt. Failed (HttpError (Str ''Network Error'')
                                            ''Request failed with status code 400''))\<rparr>"

text \<open>A token endpoint that mints a new access token for every request it answers.\<close>

definition ex_env_minting :: "string env" where
  "ex_env_minting =
     ex_env\<lparr>provider := (\<lambda>hist rt. Responded (ex_response (if hist = [] then ''A2'' else ''A3'')))\<rparr>"

text \<open>The same account after the user disconnected: the access token is cleared.\<close>

definition ex_account_no_token :: "string account" where
  "ex_account_no_token = ex_account\<lparr>dropboxAccessToken := None\<rparr>"

text \<open>An account whose token is good for another hour.\<close>

definition ex_account_fresh :: "string account" where
  "ex_account_fresh = ex_account\<lparr>dropboxTokenExpiresAt := Some ''2023-11-14T23:13:20.250Z''\<rparr>"

text \<open>An account that was authorised without offline access: no refresh token.\<close>

definition ex_account_no_refresh :: "string account" where
  "ex_account_no_refresh = ex_account\<lparr>dropboxRefreshToken := None\<rparr>"

text \<open>An account row that was never connected, or was cleared altogether: no token at all.\<close>

definition ex_account_no_tokens :: "string account" where
  "ex_account_no_tokens = ex_account\<lparr>dropboxAccessToken := None, dropboxRefreshToken := None\<rparr>"

text \<open>A token endpoint that rotates the refresh token with every answer.\<close>

definition ex_env_rotating :: "string env" where
  "ex_env_rotating =
     ex_env\<lparr>provider := (\<lambda>hist rt. Responded ((ex_response ''A2'')\<lparr>refresh_token := Str ''R9''\<rparr>))\<rparr>"

text \<open>
  The table after another request has saved a new logo and a re-issued refresh token,
  while the account in hand is still the one loaded before that.
\<close>

definition ex_row_edited :: account_row where
  "ex_row_edited = ex_row\<lparr>row_dropboxRefreshToken := Some ''R2'',
                           row_brandLogo := Some ''/uploads/logo-v2.png''\<rparr>"

definition ex_world_edited :: world where
  "ex_world_edited = ex_world\<lparr>db := [''default_account'' \<mapsto> ex_row_edited]\<rparr>"

section \<open>The staleness predicate\<close>

lemma isTokenExpired_not:
  assumes "Date_of_string e s = Some t" "now + default_bufferMinutes * 60 * 1000 < t"
  shows "\<not> isTokenExpired e now (Some s) default_bufferMinutes"
proof -
  from assms(1) have "s \<noteq> []" by (auto simp: Date_of_string_def split: if_splits)
  moreover have "\<not> date_le (Some t) (new_Date (Some (now + default_bufferMinutes * 60 * 1000)))"
    using assms(2) by (simp add: new_Date_def)
  ultimately show ?thesis using assms(1) by (simp add: isTokenExpired_def)
qed

lemma isTokenExpired_due:
  assumes "Date_of_string e s = Some t" "t \<le> now + default_bufferMinutes * 60 * 1000"
    and "\<bar>now + default_bufferMinutes * 60 * 1000\<bar> \<le> max_time"
  shows "isTokenExpired e now (Some s) default_bufferMinutes"
proof -
  from assms(1) have "s \<noteq> []" by (auto simp: Date_of_string_def split: if_splits)
  moreover have "date_le (Some t) (new_Date (Some (now + default_bufferMinutes * 60 * 1000)))"
    using assms(2,3) by (simp add: new_Date_def)
  ultimately show ?thesis using assms(1) by (simp add: isTokenExpired_def)
qed

lemma isTokenExpired_frontend_eq:
  "isTokenExpired_frontend e now x b = isTokenExpired e now x b"
  by (simp add: isTokenExpired_frontend_def isTokenExpired_def Let_def split: option.splits)

section \<open>The refresh exchange and the update\<close>

lemma refreshAccessToken_responded:
  assumes "isAvailable s" "rt \<noteq> []" "provider e (requests w) rt = Responded d"
    and "ToNumber e (expires_in d) = Some n"
    and "\<bar>clock w + int (latency e) + n * 1000\<bar> \<le> max_time"
  shows "refreshAccessToken e s w (Some rt) =
           (Inr \<lparr>res_access_token = access_token d,
                 res_refresh_token = js_or (refresh_token d) (Str rt),
                 res_expires_in = expires_in d,
                 res_expires_at = iso_string e (clock w + int (latency e) + n * 1000)\<rparr>,
            w\<lparr>requests := requests w @ [rt], clock := clock w + int (latency e)\<rparr>)"
  using assms by (simp add: refreshAccessToken_def Let_def new_Date_def)

text \<open>A \<^verbatim>\<open>null\<close> lifetime is no failure: the token is taken to expire as it arrives.\<close>

lemma refreshAccessToken_null_lifetime:
  assumes "isAvailable s" "rt \<noteq> []" "provider e (requests w) rt = Responded d"
    and "expires_in d = NumNull" "\<bar>clock w + int (latency e)\<bar> \<le> max_time"
  shows "refreshAccessToken e s w (Some rt) =
           (Inr \<lparr>res_access_token = access_token d,
                 res_refresh_token = js_or (refresh_token d) (Str rt),
                 res_expires_in = NumNull,
                 res_expires_at = iso_string e (clock w + int (latency e))\<rparr>,
            w\<lparr>requests := requests w @ [rt], clock := clock w + int (latency e)\<rparr>)"
  using assms by (simp add: refreshAccessToken_def Let_def new_Date_def)

lemma refreshAccessToken_failed:
  assumes "isAvailable s" "rt \<noteq> []" "provider e (requests w) rt = Failed err"
  shows "refreshAccessToken e s w (Some rt) =
           (Inl (Error (''Failed to refresh access token: '' @ error_detail err)),
            w\<lparr>requests := requests w @ [rt], clock := clock w + int (latency e)\<rparr>)"
  using assms by (simp add: refreshAccessToken_def Let_def)

lemma Account_update_requests:
  "Account_update e w a u = (r, w') \<Longrightarrow> requests w' = requests w"
  by (auto simp: Account_update_def Let_def split: option.splits)

text \<open>On a stale account that holds both tokens the call is the exchange followed by the update.\<close>

lemma ensureValidToken_stale:
  assumes "present (dropboxAccessToken a)"
    and "isTokenExpired e (clock w) (dropboxTokenExpiresAt a) default_bufferMinutes"
    and "dropboxRefreshToken a = Some rt" "rt \<noteq> []"
  shows "ensureValidToken e s w (Some a) =
           (case refreshAccessToken e s w (Some rt) of
              (Inl (Error m), w1) \<Rightarrow> (Inl (Error (''Token refresh failed: '' @ m)), w1)
            | (Inr res, w1) \<Rightarrow>
                (case Account_update e w1 a
                        \<lparr>upd_dropboxAccessToken = res_access_token res,
                         upd_dropboxRefreshToken = res_refresh_token res,
                         upd_dropboxTokenExpiresAt = Str (res_expires_at res),
                         upd_brandLogo = Undefined,
                         upd_brandColors = None\<rparr> of
                   (Inl (Error m), w2) \<Rightarrow> (Inl (Error (''Token refresh failed: '' @ m)), w2)
                 | (Inr a', w2) \<Rightarrow> (Inr a', w2)))"
  using assms by (simp add: ensureValidToken_def present_def)

text \<open>A stale account is returned only out of a successful update after an answered request.\<close>

lemma ensureValidToken_refresh_inv:
  assumes "ensureValidToken e svc w (Some a) = (Inr a', w')"
    and "isTokenExpired e (clock w) (dropboxTokenExpiresAt a) default_bufferMinutes"
  shows "\<exists>rt d t. dropboxRefreshToken a = Some rt \<and> rt \<noteq> [] \<and>
           provider e (requests w) rt = Responded d \<and>
           Account_update e (w\<lparr>requests := requests w @ [rt], clock := clock w + int (latency e)\<rparr>) a
             \<lparr>upd_dropboxAccessToken = access_token d,
              upd_dropboxRefreshToken = js_or (refresh_token d) (Str rt),
              upd_dropboxTokenExpiresAt = Str (iso_string e t),
              upd_brandLogo = Undefined,
              upd_brandColors = None\<rparr> = (Inr a', w')"
  using assms
  by (auto simp: ensureValidToken_def refreshAccessToken_def Let_def
      split: option.splits if_splits exchange.splits prod.splits sum.splits js_error.splits)

lemma ensureValidToken_stale_not_fast:
  assumes "isTokenExpired e (clock w) (dropboxTokenExpiresAt a) default_bufferMinutes"
  shows "ensureValidToken e svc w (Some a) \<noteq> (Inr a, w)"
proof
  assume eq: "ensureValidToken e svc w (Some a) = (Inr a, w)"
  from ensureValidToken_refresh_inv[OF eq assms]
  obtain rt u where
    "Account_update e (w\<lparr>requests := requests w @ [rt], clock := clock w + int (latency e)\<rparr>) a u
       = (Inr a, w)"
    by blast
  from Account_update_requests[OF this] show False by simp
qed

text \<open>Whenever the call fails, the accounts table is as it was.\<close>

lemma ensureValidToken_db_on_error:
  "ensureValidToken e s w acct = (Inl err, w') \<Longrightarrow> db w' = db w"
  by (auto simp: ensureValidToken_def refreshAccessToken_def Account_update_def Let_def
      split: option.splits if_splits exchange.splits prod.splits sum.splits js_error.splits)

section \<open>Calls in flight: the two parts make up the call\<close>

lemma ensureValidToken_phases:
  "ensureValidToken e s w account =
     (case ensureValidToken_begin e s w account of
        (Awaiting a rt x, w1) \<Rightarrow>
          ensureValidToken_resume e (w1\<lparr>clock := clock w1 + int (latency e)\<rparr>) a rt x
      | (Finished r, w1) \<Rightarrow> (r, w1)
      | (Called acct, w1) \<Rightarrow> (Inl (Error []), w1))"
  by (simp add: ensureValidToken_def ensureValidToken_begin_def ensureValidToken_resume_def
      refreshAccessToken_def Let_def present_def
      split: option.splits exchange.splits)

lemma ensureValidToken_begin_started:
  "ensureValidToken_begin e s w account = (c, w') \<Longrightarrow> started c"
  by (auto simp: ensureValidToken_begin_def started_def split: option.splits if_splits)

lemma begin_stale:
  assumes "present (dropboxAccessToken a)"
    and "isTokenExpired e (clock w) (dropboxTokenExpiresAt a) default_bufferMinutes"
    and "dropboxRefreshToken a = Some rt" "rt \<noteq> []"
    and "isAvailable s"
  shows "ensureValidToken_begin e s w (Some a) =
           (Awaiting a rt (provider e (requests w) rt), w\<lparr>requests := requests w @ [rt]\<rparr>)"
  using assms by (simp add: ensureValidToken_begin_def present_def)

lemma resume_requests:
  "ensureValidToken_resume e w a rt x = (r, w') \<Longrightarrow> requests w' = requests w"
  by (auto simp: ensureValidToken_resume_def Account_update_def Let_def
      split: exchange.splits option.splits)

text \<open>Once every call has started, no event sends a request.\<close>

lemma fire_started:
  assumes "\<forall>c \<in> set cs. started c"
  shows "requests (fst (fire e s (w, cs) ev)) = requests w \<and>
         (\<forall>c \<in> set (snd (fire e s (w, cs) ev)). started c)"
proof (cases ev)
  case (Tick d)
  with assms show ?thesis by simp
next
  case (Run i)
  show ?thesis
  proof (cases "i < length cs")
    case False
    with Run assms show ?thesis by simp
  next
    case True
    then have "started (cs ! i)" using assms by simp
    then show ?thesis using Run True assms
      by (cases "cs ! i")
        (auto simp: started_def split: prod.splits
           dest: resume_requests dest!: set_update_subset_insert[THEN subsetD])
  qed
qed

lemma run_started:
  "\<forall>c \<in> set cs. started c \<Longrightarrow> requests (fst (run e s evs (w, cs))) = requests w"
proof (induction evs arbitrary: w cs)
  case Nil
  then show ?case by (simp add: run_def)
next
  case (Cons ev evs)
  obtain w' cs' where f: "fire e s (w, cs) ev = (w', cs')" by (cases "fire e s (w, cs) ev")
  from fire_started[OF Cons.prems, of e s w ev] f
  have "requests w' = requests w" "\<forall>c \<in> set cs'. started c" by simp_all
  with Cons.IH[of cs' w'] f show ?case by (simp add: run_def)
qed

lemma run_append: "run e s (evs @ evs') cfg = run e s evs' (run e s evs cfg)"
  by (simp add: run_def)

text \<open>
  Starting \<open>k\<close> of \<open>n\<close> calls on the same stale account, one after the other at one
  reading of the clock: each of them sends a request.
\<close>

lemma start_all:
  assumes "present (dropboxAccessToken a)"
    and "isTokenExpired e (clock w) (dropboxTokenExpiresAt a) default_bufferMinutes"
    and "dropboxRefreshToken a = Some rt" "rt \<noteq> []"
    and "isAvailable s"
  shows "k \<le> n \<Longrightarrow>
         run e s (map Run [0..<k]) (w, replicate n (Called (Some a))) =
           (w\<lparr>requests := requests w @ replicate k rt\<rparr>,
            map (\<lambda>i. Awaiting a rt (provider e (requests w @ replicate i rt) rt)) [0..<k]
              @ replicate (n - k) (Called (Some a)))"
proof (induction k)
  case 0
  show ?case by (simp add: run_def)
next
  case (Suc k)
  let ?w = "w\<lparr>requests := requests w @ replicate k rt\<rparr>"
  let ?pre = "map (\<lambda>i. Awaiting a rt (provider e (requests w @ replicate i rt) rt)) [0..<k]"
  from Suc.prems obtain m where m: "n - k = Suc m" "n - Suc k = m"
    by (cases "n - k") auto
  have stale: "isTokenExpired e (clock ?w) (dropboxTokenExpiresAt a) default_bufferMinutes"
    using assms(2) by simp
  have len: "length ?pre = k" by simp
  have "run e s (map Run [0..<Suc k]) (w, replicate n (Called (Some a))) =
        fire e s (?w, ?pre @ replicate (n - k) (Called (Some a))) (Run k)"
    using Suc by (simp add: run_def)
  also have "\<dots> = (?w\<lparr>requests := requests ?w @ [rt]\<rparr>,
                   (?pre @ Called (Some a) # replicate m (Called (Some a)))
                      [k := Awaiting a rt (provider e (requests ?w) rt)])"
    using begin_stale[OF assms(1) stale assms(3,4,5)] m len
    by (simp add: nth_append)
  also have "\<dots> = (w\<lparr>requests := requests w @ replicate (Suc k) rt\<rparr>,
                   map (\<lambda>i. Awaiting a rt (provider e (requests w @ replicate i rt) rt)) [0..<Suc k]
                     @ replicate (n - Suc k) (Called (Some a)))"
    using m len by (simp add: list_update_append replicate_append_same)
  finally show ?case .
qed

section \<open>The claims\<close>

subsection \<open>C1: a stale token is refreshed, saved and returned\<close>

text \<open>
  C1, as amended. For every stored account that holds a non-empty access token, whose
  \<^verbatim>\<open>dropboxTokenExpiresAt\<close> is at or before now plus the five-minute buffer and whose
  refresh token is non-empty: when the service is configured, the token endpoint answers
  with an access token and a lifetime (the times involved being in the range of a
  \<^verbatim>\<open>Date\<close>), and the write succeeds, \<^verbatim>\<open>ensureValidToken\<close>
  posts exactly one refresh request, stores the new access token and the expiry
  (time of the answer plus \<^verbatim>\<open>expires_in\<close> seconds) in the account's row, and returns
  the account carrying the new access token.
\<close>

theorem stale_token_refreshed:
  assumes "present (dropboxAccessToken a)"
    and "dropboxTokenExpiresAt a = Some s"
    and "Date_of_string e s = Some t"
    and "t \<le> clock w + default_bufferMinutes * 60 * 1000"
    and "\<bar>clock w + default_bufferMinutes * 60 * 1000\<bar> \<le> max_time"
    and "dropboxRefreshToken a = Some rt" "rt \<noteq> []"
    and "isAvailable svc"
    and "provider e (requests w) rt = Responded d"
    and "access_token d = Str tok"
    and "ToNumber e (expires_in d) = Some n"
    and "\<bar>clock w + int (latency e) + n * 1000\<bar> \<le> max_time"
    and "db_write_error e = None"
    and "db w (acc_id a) = Some r"
  shows "\<exists>a' w' r'.
           ensureValidToken e svc w (Some a) = (Inr a', w') \<and>
           requests w' = requests w @ [rt] \<and>
           dropboxAccessToken a' = Some tok \<and>
           dropboxTokenExpiresAt a' = Some (iso_string e (clock w + int (latency e) + n * 1000)) \<and>
           db w' (acc_id a) = Some r' \<and>
           row_dropboxAccessToken r' = Some tok \<and>
           row_dropboxTokenExpiresAt r' = Some (iso_string e (clock w + int (latency e) + n * 1000))"
proof -
  have stale: "isTokenExpired e (clock w) (dropboxTokenExpiresAt a) default_bufferMinutes"
    using isTokenExpired_due[OF assms(3,4,5)] assms(2) by simp
  show ?thesis
    unfolding ensureValidToken_stale[OF assms(1) stale assms(6,7)]
      refreshAccessToken_responded[OF assms(8,7,9,11,12)]
    using assms(10,13,14)
    by (simp add: Account_update_def Let_def)
qed

theorem stale_token_refreshed_witness:
  "present (dropboxAccessToken ex_account) \<and>
   dropboxTokenExpiresAt ex_account = Some ''2023-11-14T22:13:10.000Z'' \<and>
   Date_of_string ex_env ''2023-11-14T22:13:10.000Z'' = Some 1699999990000 \<and>
   1699999990000 \<le> clock ex_world + default_bufferMinutes * 60 * 1000 \<and>
   dropboxRefreshToken ex_account = Some ''R1'' \<and>
   isAvailable ex_service \<and>
   provider ex_env (requests ex_world) ''R1'' = Responded (ex_response ''A2'') \<and>
   db ex_world (acc_id ex_account) = Some ex_row \<and>
   (\<exists>a' w' r'.
      ensureValidToken ex_env ex_service ex_world (Some ex_account) = (Inr a', w') \<and>
      requests w' = [''R1''] \<and>
      dropboxAccessToken a' = Some ''A2'' \<and>
      dropboxTokenExpiresAt a' = Some ''2023-11-14T23:13:20.250Z'' \<and>
      db w' ''default_account'' = Some r' \<and>
      row_dropboxAccessToken r' = Some ''A2'' \<and>
      row_dropboxTokenExpiresAt r' = Some ''2023-11-14T23:13:20.250Z'')"
proof -
  have h1: "present (dropboxAccessToken ex_account)"
    by (simp add: ex_account_def present_def)
  have h2: "dropboxTokenExpiresAt ex_account = Some ''2023-11-14T22:13:10.000Z''"
    by (simp add: ex_account_def)
  have h3: "Date_of_string ex_env ''2023-11-14T22:13:10.000Z'' = Some 1699999990000"
    by (simp add: Date_of_string_def ex_env_def ex_parse_def new_Date_def max_time_def)
  have h4: "1699999990000 \<le> clock ex_world + default_bufferMinutes * 60 * 1000"
    by (simp add: ex_world_def default_bufferMinutes_def)
  have h5: "\<bar>clock ex_world + default_bufferMinutes * 60 * 1000\<bar> \<le> max_time"
    by (simp add: ex_world_def default_bufferMinutes_def max_time_def)
  have h6: "dropboxRefreshToken ex_account = Some ''R1''"
    by (simp add: ex_account_def)
  have h7: "''R1'' \<noteq> []" by simp
  have h8: "isAvailable ex_service"
    by (simp add: isAvailable_def ex_service_def)
  have h9: "provider ex_env (requests ex_world) ''R1'' = Responded (ex_response ''A2'')"
    by (simp add: ex_env_def)
  have h10: "access_token (ex_response ''A2'') = Str ''A2''"
    by (simp add: ex_response_def)
  have h11: "ToNumber ex_env (expires_in (ex_response ''A2'')) = Some 3600"
    by (simp add: ex_response_def)
  have h12: "\<bar>clock ex_world + int (latency ex_env) + 3600 * 1000\<bar> \<le> max_time"
    by (simp add: ex_world_def ex_env_def max_time_def)
  have h13: "db_write_error ex_env = None"
    by (simp add: ex_env_def)
  have h14: "db ex_world (acc_id ex_account) = Some ex_row"
    by (simp add: ex_world_def ex_account_def)
  have iso: "iso_string ex_env (clock ex_world + int (latency ex_env) + 3600 * 1000)
               = ''2023-11-14T23:13:20.250Z''"
    by (simp add: ex_env_def ex_world_def ex_iso_def)
  have rq: "requests ex_world = []" "acc_id ex_account = ''default_account''"
    by (simp_all add: ex_world_def ex_account_def)
  from stale_token_refreshed[OF h1 h2 h3 h4 h5 h6 h7 h8 h9 h10 h11 h12 h13 h14]
  have "\<exists>a' w' r'.
      ensureValidToken ex_env ex_service ex_world (Some ex_account) = (Inr a', w') \<and>
      requests w' = [''R1''] \<and>
      dropboxAccessToken a' = Some ''A2'' \<and>
      dropboxTokenExpiresAt a' = Some ''2023-11-14T23:13:20.250Z'' \<and>
      db w' ''default_account'' = Some r' \<and>
      row_dropboxAccessToken r' = Some ''A2'' \<and>
      row_dropboxTokenExpiresAt r' = Some ''2023-11-14T23:13:20.250Z''"
    unfolding iso rq by simp
  with h1 h2 h3 h4 h6 h8 h9 h14 show ?thesis by blast
qed

text \<open>
  The claim as first stated also covers an account whose access token is cleared while
  the refresh token is kept. There the call stops at its first check: no request is
  posted and nothing is returned.
\<close>

theorem cleared_access_token_not_refreshed:
  "dropboxTokenExpiresAt ex_account_no_token = Some ''2023-11-14T22:13:10.000Z'' \<and>
   Date_of_string ex_env ''2023-11-14T22:13:10.000Z'' = Some 1699999990000 \<and>
   1699999990000 \<le> clock ex_world + default_bufferMinutes * 60 * 1000 \<and>
   dropboxRefreshToken ex_account_no_token = Some ''R1'' \<and>
   ensureValidToken ex_env ex_service ex_world (Some ex_account_no_token)
     = (Inl (Error ''No access token available''), ex_world) \<and>
   requests ex_world = []"
  by (simp add: ensureValidToken_def ex_account_no_token_def ex_account_def present_def
      Date_of_string_def ex_env_def ex_parse_def new_Date_def max_time_def ex_world_def
      default_bufferMinutes_def no_token_msg_def)


subsection \<open>C2: a token that is not about to expire is returned as it is\<close>

text \<open>
  C2. For every stored account whose \<^verbatim>\<open>dropboxTokenExpiresAt\<close> is strictly later than
  now plus the five-minute buffer, \<^verbatim>\<open>ensureValidToken\<close> posts no refresh request and
  writes nothing: the world after the call is the world before it. When the account
  holds an access token, the call returns the account, and with it the cached access
  token, unchanged.
\<close>

theorem fresh_token_fast_path:
  assumes "dropboxTokenExpiresAt a = Some s"
    and "Date_of_string e s = Some t"
    and "clock w + default_bufferMinutes * 60 * 1000 < t"
  shows "snd (ensureValidToken e svc w (Some a)) = w \<and>
         (present (dropboxAccessToken a) \<longrightarrow>
            ensureValidToken e svc w (Some a) = (Inr a, w))"
  using assms(1) isTokenExpired_not[OF assms(2,3)]
  by (simp add: ensureValidToken_def)

theorem fresh_token_fast_path_witness:
  "present (dropboxAccessToken ex_account_fresh) \<and>
   dropboxAccessToken ex_account_fresh = Some ''A1'' \<and>
   dropboxTokenExpiresAt ex_account_fresh = Some ''2023-11-14T23:13:20.250Z'' \<and>
   Date_of_string ex_env ''2023-11-14T23:13:20.250Z'' = Some 1700003600250 \<and>
   clock ex_world + default_bufferMinutes * 60 * 1000 < 1700003600250 \<and>
   ensureValidToken ex_env ex_service ex_world (Some ex_account_fresh)
     = (Inr ex_account_fresh, ex_world)"
proof -
  have h0: "present (dropboxAccessToken ex_account_fresh)"
    "dropboxAccessToken ex_account_fresh = Some ''A1''"
    by (simp_all add: ex_account_fresh_def ex_account_def present_def)
  have h1: "dropboxTokenExpiresAt ex_account_fresh = Some ''2023-11-14T23:13:20.250Z''"
    by (simp add: ex_account_fresh_def)
  have h2: "Date_of_string ex_env ''2023-11-14T23:13:20.250Z'' = Some 1700003600250"
    by (simp add: Date_of_string_def ex_env_def ex_parse_def new_Date_def max_time_def)
  have h3: "clock ex_world + default_bufferMinutes * 60 * 1000 < 1700003600250"
    by (simp add: ex_world_def default_bufferMinutes_def)
  from fresh_token_fast_path[OF h1 h2 h3, of ex_service] h0 h1 h2 h3
  show ?thesis by blast
qed

subsection \<open>C3: no refresh token, no request\<close>

text \<open>
  C3, as amended. For every stale account whose refresh token is null or empty,
  \<^verbatim>\<open>ensureValidToken\<close> fails, posts no refresh request and writes nothing: the world
  after the call is the world before it. The failure is the error that asks the user to
  re-authenticate when the account holds a non-empty access token, and
  \<^verbatim>\<open>No access token available\<close>, the error for no account at all, when it does not.
\<close>

theorem no_refresh_token_reauthenticate:
  assumes "isTokenExpired e (clock w) (dropboxTokenExpiresAt a) default_bufferMinutes"
    and "\<not> present (dropboxRefreshToken a)"
  shows "ensureValidToken e svc w (Some a) =
           (Inl (Error (if present (dropboxAccessToken a)
                        then ''Access token expired and no refresh token available. Please re-authenticate.''
                        else ''No access token available'')), w)"
  using assms by (simp add: ensureValidToken_def reauth_msg_def no_token_msg_def)

theorem no_refresh_token_reauthenticate_witness:
  "present (dropboxAccessToken ex_account_no_refresh) \<and>
   isTokenExpired ex_env (clock ex_world) (dropboxTokenExpiresAt ex_account_no_refresh)
     default_bufferMinutes \<and>
   \<not> present (dropboxRefreshToken ex_account_no_refresh) \<and>
   ensureValidToken ex_env ex_service ex_world (Some ex_account_no_refresh) =
     (Inl (Error ''Access token expired and no refresh token available. Please re-authenticate.''),
      ex_world)"
proof -
  have h0: "present (dropboxAccessToken ex_account_no_refresh)"
    by (simp add: ex_account_no_refresh_def ex_account_def present_def)
  have h1: "isTokenExpired ex_env (clock ex_world) (dropboxTokenExpiresAt ex_account_no_refresh)
              default_bufferMinutes"
    by (simp add: isTokenExpired_def ex_account_no_refresh_def ex_account_def Date_of_string_def
        ex_env_def ex_parse_def new_Date_def max_time_def ex_world_def default_bufferMinutes_def)
  have h2: "\<not> present (dropboxRefreshToken ex_account_no_refresh)"
    by (simp add: ex_account_no_refresh_def present_def)
  from no_refresh_token_reauthenticate[OF h1 h2, of ex_service] h0 h1 h2
  show ?thesis by simp
qed

text \<open>
  The claim as first stated promises the re-authentication error for every stale account
  without a refresh token. An account that holds neither token is stale and has no
  refresh token, and is turned away by the first check with the other error.
\<close>

theorem no_tokens_other_error:
  "isTokenExpired ex_env (clock ex_world) (dropboxTokenExpiresAt ex_account_no_tokens)
     default_bufferMinutes \<and>
   dropboxRefreshToken ex_account_no_tokens = None \<and>
   ensureValidToken ex_env ex_service ex_world (Some ex_account_no_tokens)
     = (Inl (Error ''No access token available''), ex_world) \<and>
   fst (ensureValidToken ex_env ex_service ex_world (Some ex_account_no_tokens))
     \<noteq> Inl (Error ''Access token expired and no refresh token available. Please re-authenticate.'')"
  by (simp add: ensureValidToken_def ex_account_no_tokens_def ex_account_def present_def
      isTokenExpired_def Date_of_string_def ex_env_def ex_parse_def new_Date_def max_time_def
      ex_world_def default_bufferMinutes_def no_token_msg_def)

subsection \<open>C4: a failed exchange leaves the store alone\<close>

text \<open>
  C4. For every stale account with a refresh token, if the token endpoint fails (no answer,
  or an answer that is an error), \<^verbatim>\<open>ensureValidToken\<close> fails and the accounts table
  is exactly what it was before the call.
\<close>

theorem failed_exchange_store_unchanged:
  assumes "isTokenExpired e (clock w) (dropboxTokenExpiresAt a) default_bufferMinutes"
    and "dropboxRefreshToken a = Some rt" "rt \<noteq> []"
    and "provider e (requests w) rt = Failed err"
  shows "\<exists>m w'. ensureValidToken e svc w (Some a) = (Inl (Error m), w') \<and> db w' = db w"
proof (cases "present (dropboxAccessToken a)")
  case False
  then show ?thesis by (simp add: ensureValidToken_def)
next
  case True
  show ?thesis
  proof (cases "isAvailable svc")
    case avail: True
    show ?thesis
      unfolding ensureValidToken_stale[OF True assms(1,2,3)]
        refreshAccessToken_failed[OF avail assms(3,4)]
      by simp
  next
    case False
    then show ?thesis
      unfolding ensureValidToken_stale[OF True assms(1,2,3)]
      by (simp add: refreshAccessToken_def)
  qed
qed

theorem failed_exchange_store_unchanged_witness:
  "isTokenExpired ex_env_timeout (clock ex_world) (dropboxTokenExpiresAt ex_account)
     default_bufferMinutes \<and>
   dropboxRefreshToken ex_account = Some ''R1'' \<and>
   provider ex_env_timeout (requests ex_world) ''R1'' = Failed (NetworkError ''Network Error'') \<and>
   (\<exists>m w'. ensureValidToken ex_env_timeout ex_service ex_world (Some ex_account)
              = (Inl (Error m), w') \<and> db w' = db ex_world)"
proof -
  have h1: "isTokenExpired ex_env_timeout (clock ex_world) (dropboxTokenExpiresAt ex_account)
              default_bufferMinutes"
    by (simp add: isTokenExpired_def ex_account_def Date_of_string_def ex_env_timeout_def
        ex_env_def ex_parse_def new_Date_def max_time_def ex_world_def default_bufferMinutes_def)
  have h2: "dropboxRefreshToken ex_account = Some ''R1''"
    by (simp add: ex_account_def)
  have h3: "''R1'' \<noteq> []" by simp
  have h4: "provider ex_env_timeout (requests ex_world) ''R1''
              = Failed (NetworkError ''Network Error'')"
    by (simp add: ex_env_timeout_def)
  from failed_exchange_store_unchanged[OF h1 h2 h3 h4, of ex_service] h1 h2 h4
  show ?thesis by blast
qed

subsection \<open>C5: the refresh token is kept, or replaced\<close>

text \<open>
  C5, as amended. A refresh that succeeds (an account holding both tokens and stale, the
  service configured, an answer with a usable lifetime, a write that succeeds) posts one
  request and leaves in the account's row, and in the returned account, the refresh
  token that the account in hand held and sent, when the answer carries no refresh
  token (left out, null or empty), and the answer's refresh token, in place of the old
  one, when it carries one. Whatever the row held before the call is overwritten.
\<close>

theorem refresh_token_kept_or_replaced:
  assumes "present (dropboxAccessToken a)"
    and "isTokenExpired e (clock w) (dropboxTokenExpiresAt a) default_bufferMinutes"
    and "dropboxRefreshToken a = Some rt" "rt \<noteq> []"
    and "isAvailable svc"
    and "provider e (requests w) rt = Responded d"
    and "ToNumber e (expires_in d) = Some n"
    and "\<bar>clock w + int (latency e) + n * 1000\<bar> \<le> max_time"
    and "db_write_error e = None"
    and "db w (acc_id a) = Some r"
  shows "\<exists>a' w' r'.
           ensureValidToken e svc w (Some a) = (Inr a', w') \<and>
           requests w' = requests w @ [rt] \<and>
           db w' (acc_id a) = Some r' \<and>
           row_dropboxRefreshToken r' = dropboxRefreshToken a' \<and>
           (\<not> truthy (refresh_token d) \<longrightarrow> row_dropboxRefreshToken r' = Some rt) \<and>
           (\<forall>new. refresh_token d = Str new \<and> new \<noteq> [] \<longrightarrow>
                  row_dropboxRefreshToken r' = Some new)"
  unfolding ensureValidToken_stale[OF assms(1,2,3,4)]
    refreshAccessToken_responded[OF assms(5,4,6,7,8)]
  using assms(9,10)
  by (auto simp: Account_update_def Let_def js_or_def)

theorem refresh_token_kept_or_replaced_witness:
  "present (dropboxAccessToken ex_account) \<and>
   isTokenExpired ex_env (clock ex_world) (dropboxTokenExpiresAt ex_account) default_bufferMinutes \<and>
   dropboxRefreshToken ex_account = Some ''R1'' \<and>
   isAvailable ex_service \<and>
   db ex_world (acc_id ex_account) = Some ex_row \<and>
   provider ex_env (requests ex_world) ''R1'' = Responded (ex_response ''A2'') \<and>
   refresh_token (ex_response ''A2'') = Undefined \<and>
   (\<exists>a' w' r'. ensureValidToken ex_env ex_service ex_world (Some ex_account) = (Inr a', w') \<and>
      requests w' = [''R1''] \<and> db w' ''default_account'' = Some r' \<and>
      row_dropboxRefreshToken r' = Some ''R1'' \<and> dropboxRefreshToken a' = Some ''R1'') \<and>
   provider ex_env_rotating (requests ex_world) ''R1''
     = Responded ((ex_response ''A2'')\<lparr>refresh_token := Str ''R9''\<rparr>) \<and>
   (\<exists>a' w' r'. ensureValidToken ex_env_rotating ex_service ex_world (Some ex_account) = (Inr a', w') \<and>
      requests w' = [''R1''] \<and> db w' ''default_account'' = Some r' \<and>
      row_dropboxRefreshToken r' = Some ''R9'' \<and> dropboxRefreshToken a' = Some ''R9'')"
proof -
  have h1: "present (dropboxAccessToken ex_account)"
    by (simp add: ex_account_def present_def)
  have h2: "isTokenExpired ex_env (clock ex_world) (dropboxTokenExpiresAt ex_account)
              default_bufferMinutes"
    by (simp add: isTokenExpired_def ex_account_def Date_of_string_def
        ex_env_def ex_parse_def new_Date_def max_time_def ex_world_def default_bufferMinutes_def)
  have h2': "isTokenExpired ex_env_rotating (clock ex_world) (dropboxTokenExpiresAt ex_account)
              default_bufferMinutes"
    by (simp add: isTokenExpired_def ex_account_def Date_of_string_def ex_env_rotating_def
        ex_env_def ex_parse_def new_Date_def max_time_def ex_world_def default_bufferMinutes_def)
  have h3: "dropboxRefreshToken ex_account = Some ''R1''"
    by (simp add: ex_account_def)
  have h4: "''R1'' \<noteq> []" by simp
  have h5: "isAvailable ex_service"
    by (simp add: isAvailable_def ex_service_def)
  have h6: "provider ex_env (requests ex_world) ''R1'' = Responded (ex_response ''A2'')"
    by (simp add: ex_env_def)
  have h6': "provider ex_env_rotating (requests ex_world) ''R1''
               = Responded ((ex_response ''A2'')\<lparr>refresh_token := Str ''R9''\<rparr>)"
    by (simp add: ex_env_rotating_def)
  have h7: "ToNumber ex_env (expires_in (ex_response ''A2'')) = Some 3600"
    by (simp add: ex_response_def)
  have h7': "ToNumber ex_env_rotating
               (expires_in ((ex_response ''A2'')\<lparr>refresh_token := Str ''R9''\<rparr>)) = Some 3600"
    by (simp add: ex_response_def)
  have h8: "\<bar>clock ex_world + int (latency ex_env) + 3600 * 1000\<bar> \<le> max_time"
    by (simp add: ex_world_def ex_env_def max_time_def)
  have h8': "\<bar>clock ex_world + int (latency ex_env_rotating) + 3600 * 1000\<bar> \<le> max_time"
    by (simp add: ex_world_def ex_env_rotating_def ex_env_def max_time_def)
  have h9: "db_write_error ex_env = None" "db_write_error ex_env_rotating = None"
    by (simp_all add: ex_env_rotating_def ex_env_def)
  have h10: "db ex_world (acc_id ex_account) = Some ex_row"
    by (simp add: ex_world_def ex_account_def)
  have k: "refresh_token (ex_response ''A2'') = Undefined"
    by (simp add: ex_response_def)
  have rq: "requests ex_world = []" "acc_id ex_account = ''default_account''"
    by (simp_all add: ex_world_def ex_account_def)
  from refresh_token_kept_or_replaced[OF h1 h2 h3 h4 h5 h6 h7 h8 h9(1) h10]
  have kept: "\<exists>a' w' r'. ensureValidToken ex_env ex_service ex_world (Some ex_account) = (Inr a', w') \<and>
      requests w' = [''R1''] \<and> db w' ''default_account'' = Some r' \<and>
      row_dropboxRefreshToken r' = Some ''R1'' \<and> dropboxRefreshToken a' = Some ''R1''"
    unfolding rq by (auto simp: k)
  from refresh_token_kept_or_replaced[OF h1 h2' h3 h4 h5 h6' h7' h8' h9(2) h10]
  have replaced: "\<exists>a' w' r'. ensureValidToken ex_env_rotating ex_service ex_world (Some ex_account) = (Inr a', w') \<and>
      requests w' = [''R1''] \<and> db w' ''default_account'' = Some r' \<and>
      row_dropboxRefreshToken r' = Some ''R9'' \<and> dropboxRefreshToken a' = Some ''R9''"
    unfolding rq by auto
  from h1 h2 h3 h5 h10 h6 k kept h6' replaced show ?thesis by blast
qed

text \<open>
  The claim as first stated has the persisted refresh token unchanged when the answer
  carries none. Here the row was given \<^verbatim>\<open>R2\<close> after the account in hand was loaded
  with \<^verbatim>\<open>R1\<close>; the answer carries no refresh token, and the refresh puts \<^verbatim>\<open>R1\<close> back
  into the row.
\<close>

theorem edited_row_refresh_token_overwritten:
  "dropboxRefreshToken ex_account = Some ''R1'' \<and>
   db ex_world_edited ''default_account'' = Some ex_row_edited \<and>
   row_dropboxRefreshToken ex_row_edited = Some ''R2'' \<and>
   refresh_token (ex_response ''A2'') = Undefined \<and>
   provider ex_env (requests ex_world_edited) ''R1'' = Responded (ex_response ''A2'') \<and>
   received (Finished (fst (ensureValidToken ex_env ex_service ex_world_edited (Some ex_account))))
     = Some ''A2'' \<and>
   map_option row_dropboxRefreshToken
     (db (snd (ensureValidToken ex_env ex_service ex_world_edited (Some ex_account)))
         ''default_account'') = Some (Some ''R1'')"
  by (simp add: ensureValidToken_def refreshAccessToken_def Account_update_def Let_def
      present_def isTokenExpired_def Date_of_string_def new_Date_def max_time_def
      default_bufferMinutes_def isAvailable_def js_or_def merge_colors_def
      ex_env_def ex_service_def ex_world_edited_def ex_world_def ex_row_edited_def
      ex_account_def ex_parse_def ex_response_def)

subsection \<open>C6: what a failed exchange looks like to the caller\<close>

text \<open>
  C6, as amended. When the refresh exchange fails, \<^verbatim>\<open>ensureValidToken\<close> throws one
  plain \<^verbatim>\<open>Error\<close> whatever the cause: its message is
  \<^verbatim>\<open>Token refresh failed: Failed to refresh access token: \<close> followed by the
  provider's \<^verbatim>\<open>error_description\<close> when the answer has a non-empty one, and by the
  message of the underlying error otherwise. The cause reaches the caller only as that
  text; there is no error type for a transient failure and none for a rejected token.
\<close>

theorem failed_exchange_one_error:
  assumes "present (dropboxAccessToken a)"
    and "isTokenExpired e (clock w) (dropboxTokenExpiresAt a) default_bufferMinutes"
    and "dropboxRefreshToken a = Some rt" "rt \<noteq> []"
    and "isAvailable svc"
    and "provider e (requests w) rt = Failed err"
  shows "ensureValidToken e svc w (Some a) =
           (Inl (Error (''Token refresh failed: Failed to refresh access token: '' @ error_detail err)),
            w\<lparr>requests := requests w @ [rt], clock := clock w + int (latency e)\<rparr>)"
  unfolding ensureValidToken_stale[OF assms(1,2,3,4)]
    refreshAccessToken_failed[OF assms(5,4,6)]
  by simp

theorem failed_exchange_one_error_witness:
  "present (dropboxAccessToken ex_account) \<and>
   isTokenExpired ex_env_rejected (clock ex_world) (dropboxTokenExpiresAt ex_account)
     default_bufferMinutes \<and>
   dropboxRefreshToken ex_account = Some ''R1'' \<and>
   isAvailable ex_service \<and>
   provider ex_env_rejected (requests ex_world) ''R1''
     = Failed (HttpError (Str ''Network Error'') ''Request failed with status code 400'') \<and>
   ensureValidToken ex_env_rejected ex_service ex_world (Some ex_account) =
     (Inl (Error ''Token refresh failed: Failed to refresh access token: Network Error''),
      ex_world\<lparr>requests := [''R1''], clock := 1700000000250\<rparr>)"
proof -
  have h1: "present (dropboxAccessToken ex_account)"
    by (simp add: ex_account_def present_def)
  have h2: "isTokenExpired ex_env_rejected (clock ex_world) (dropboxTokenExpiresAt ex_account)
              default_bufferMinutes"
    by (simp add: isTokenExpired_def ex_account_def Date_of_string_def ex_env_rejected_def
        ex_env_def ex_parse_def new_Date_def max_time_def ex_world_def default_bufferMinutes_def)
  have h3: "dropboxRefreshToken ex_account = Some ''R1''"
    by (simp add: ex_account_def)
  have h4: "''R1'' \<noteq> []" by simp
  have h5: "isAvailable ex_service"
    by (simp add: isAvailable_def ex_service_def)
  have h6: "provider ex_env_rejected (requests ex_world) ''R1''
              = Failed (HttpError (Str ''Network Error'') ''Request failed with status code 400'')"
    by (simp add: ex_env_rejected_def)
  have w: "ex_world\<lparr>requests := requests ex_world @ [''R1''],
                     clock := clock ex_world + int (latency ex_env_rejected)\<rparr>
           = ex_world\<lparr>requests := [''R1''], clock := 1700000000250\<rparr>"
    by (simp add: ex_world_def ex_env_rejected_def ex_env_def)
  from failed_exchange_one_error[OF h1 h2 h3 h4 h5 h6]
  have "ensureValidToken ex_env_rejected ex_service ex_world (Some ex_account) =
     (Inl (Error ''Token refresh failed: Failed to refresh access token: Network Error''),
      ex_world\<lparr>requests := [''R1''], clock := 1700000000250\<rparr>)"
    unfolding w by simp
  with h1 h2 h3 h5 h6 show ?thesis by blast
qed

text \<open>
  An endpoint that cannot be reached and an endpoint that rejects the refresh token
  (with a description that happens to read like the network error) give the caller the
  very same outcome: nothing tells a failure worth retrying from a token that is gone.
\<close>

theorem timeout_and_rejection_indistinguishable:
  "provider ex_env_timeout (requests ex_world) ''R1'' = Failed (NetworkError ''Network Error'') \<and>
   provider ex_env_rejected (requests ex_world) ''R1''
     = Failed (HttpError (Str ''Network Error'') ''Request failed with status code 400'') \<and>
   ensureValidToken ex_env_timeout ex_service ex_world (Some ex_account)
     = ensureValidToken ex_env_rejected ex_service ex_world (Some ex_account)"
  by (simp add: ensureValidToken_def refreshAccessToken_def Let_def
      present_def isTokenExpired_def Date_of_string_def new_Date_def max_time_def
      default_bufferMinutes_def isAvailable_def ex_env_timeout_def ex_env_rejected_def
      ex_env_def ex_service_def ex_world_def ex_account_def ex_parse_def)

subsection \<open>C7: an account without an access token\<close>

text \<open>
  C7, as amended. For every existing account whose access token is null or empty,
  \<^verbatim>\<open>ensureValidToken\<close> fails with \<^verbatim>\<open>No access token available\<close>, exactly as it does
  when there is no account at all, whether or not a refresh token is stored; it posts no
  refresh request and writes nothing.
\<close>

theorem missing_access_token_rejected:
  assumes "\<not> present (dropboxAccessToken a)"
  shows "ensureValidToken e svc w (Some a) = (Inl (Error ''No access token available''), w) \<and>
         ensureValidToken e svc w (Some a) = ensureValidToken e svc w None"
  using assms by (simp add: ensureValidToken_def no_token_msg_def)

theorem missing_access_token_rejected_witness:
  "\<not> present (dropboxAccessToken (ex_account\<lparr>dropboxAccessToken := Some []\<rparr>)) \<and>
   ensureValidToken ex_env ex_service ex_world (Some (ex_account\<lparr>dropboxAccessToken := Some []\<rparr>))
     = (Inl (Error ''No access token available''), ex_world) \<and>
   ensureValidToken ex_env ex_service ex_world (Some (ex_account\<lparr>dropboxAccessToken := Some []\<rparr>))
     = ensureValidToken ex_env ex_service ex_world None"
proof -
  have h: "\<not> present (dropboxAccessToken (ex_account\<lparr>dropboxAccessToken := Some []\<rparr>))"
    by (simp add: present_def)
  from missing_access_token_rejected[OF h, of ex_env ex_service ex_world] h
  show ?thesis by blast
qed

text \<open>
  The claim as first stated has such an account refreshed. With the access token null, a
  usable refresh token and no expiry on record, the call fails at once and the refresh
  token is never sent.
\<close>

theorem null_access_token_not_treated_as_stale:
  "dropboxAccessToken (ex_account_no_token\<lparr>dropboxTokenExpiresAt := None\<rparr>) = None \<and>
   present (dropboxRefreshToken (ex_account_no_token\<lparr>dropboxTokenExpiresAt := None\<rparr>)) \<and>
   isTokenExpired ex_env (clock ex_world)
     (dropboxTokenExpiresAt (ex_account_no_token\<lparr>dropboxTokenExpiresAt := None\<rparr>))
     default_bufferMinutes \<and>
   fst (ensureValidToken ex_env ex_service ex_world
          (Some (ex_account_no_token\<lparr>dropboxTokenExpiresAt := None\<rparr>)))
     = Inl (Error ''No access token available'') \<and>
   requests (snd (ensureValidToken ex_env ex_service ex_world
          (Some (ex_account_no_token\<lparr>dropboxTokenExpiresAt := None\<rparr>)))) = []"
  by (simp add: ensureValidToken_def ex_account_no_token_def ex_account_def present_def
      isTokenExpired_def ex_world_def no_token_msg_def)


subsection \<open>C8: one staleness rule\<close>

text \<open>
  C8. The exposed predicate \<^verbatim>\<open>isTokenExpired\<close> and the staleness check made inside
  \<^verbatim>\<open>ensureValidToken\<close> are the same rule: an account holding an access token takes
  the fast path exactly when the predicate, at the default buffer, is false of its
  \<^verbatim>\<open>dropboxTokenExpiresAt\<close>. The frontend's copy of the predicate agrees with it on
  every expiry, buffer and time, and both count a missing expiry as expired.
\<close>

theorem staleness_rule_shared:
  "isTokenExpired_frontend e now x b = isTokenExpired e now x b \<and>
   isTokenExpired e now None b \<and> isTokenExpired_frontend e now None b \<and>
   (present (dropboxAccessToken a) \<longrightarrow>
      (ensureValidToken e svc w (Some a) = (Inr a, w)) =
      (\<not> isTokenExpired e (clock w) (dropboxTokenExpiresAt a) default_bufferMinutes))"
proof -
  have "present (dropboxAccessToken a) \<Longrightarrow>
        \<not> isTokenExpired e (clock w) (dropboxTokenExpiresAt a) default_bufferMinutes \<Longrightarrow>
        ensureValidToken e svc w (Some a) = (Inr a, w)"
    by (simp add: ensureValidToken_def)
  moreover have "isTokenExpired e now None b"
    by (simp add: isTokenExpired_def)
  ultimately show ?thesis
    using ensureValidToken_stale_not_fast[of e w a svc]
    by (auto simp: isTokenExpired_frontend_eq)
qed

theorem staleness_rule_shared_witness:
  "present (dropboxAccessToken ex_account) \<and>
   isTokenExpired_frontend ex_env (clock ex_world) (dropboxTokenExpiresAt ex_account) 5 \<and>
   isTokenExpired ex_env (clock ex_world) (dropboxTokenExpiresAt ex_account) default_bufferMinutes \<and>
   ensureValidToken ex_env ex_service ex_world (Some ex_account) \<noteq> (Inr ex_account, ex_world)"
proof -
  have h1: "present (dropboxAccessToken ex_account)"
    by (simp add: ex_account_def present_def)
  have h2: "isTokenExpired ex_env (clock ex_world) (dropboxTokenExpiresAt ex_account)
              default_bufferMinutes"
    by (simp add: isTokenExpired_def ex_account_def Date_of_string_def
        ex_env_def ex_parse_def new_Date_def max_time_def ex_world_def default_bufferMinutes_def)
  from staleness_rule_shared[of ex_env "clock ex_world" "dropboxTokenExpiresAt ex_account" 5
      ex_account ex_service ex_world] h1 h2
  show ?thesis by (simp add: default_bufferMinutes_def)
qed

subsection \<open>C9: calls made at the same time\<close>

text \<open>
  C9, as amended. \<^verbatim>\<open>ensureValidToken\<close> shares nothing between calls. When \<open>n\<close> calls
  are made together on one stale account (holding both tokens, with the service
  configured), every one of them posts its own refresh request before any answer can
  arrive: \<open>n\<close> requests are posted, whatever the order in which the answers are then
  handled and however much time passes.
\<close>

theorem every_caller_posts_its_own_request:
  assumes "present (dropboxAccessToken a)"
    and "isTokenExpired e (clock w) (dropboxTokenExpiresAt a) default_bufferMinutes"
    and "dropboxRefreshToken a = Some rt" "rt \<noteq> []"
    and "isAvailable s"
  shows "requests (fst (run e s (map Run [0..<n] @ evs) (w, replicate n (Called (Some a)))))
           = requests w @ replicate n rt"
proof -
  have "\<forall>c \<in> set (map (\<lambda>i. Awaiting a rt (provider e (requests w @ replicate i rt) rt)) [0..<n]).
          started c"
    by (simp add: started_def)
  from run_started[OF this]
  show ?thesis
    unfolding run_append start_all[OF assms, of n n, simplified]
    by simp
qed

theorem every_caller_posts_its_own_request_witness:
  "present (dropboxAccessToken ex_account) \<and>
   isTokenExpired ex_env (clock ex_world) (dropboxTokenExpiresAt ex_account) default_bufferMinutes \<and>
   dropboxRefreshToken ex_account = Some ''R1'' \<and>
   isAvailable ex_service \<and>
   requests (fst (run ex_env ex_service [Run 0, Run 1, Run 2, Run 2, Tick 250, Run 0, Run 1]
                    (ex_world, [Called (Some ex_account), Called (Some ex_account),
                                Called (Some ex_account)])))
     = [''R1'', ''R1'', ''R1'']"
proof -
  have h1: "present (dropboxAccessToken ex_account)"
    by (simp add: ex_account_def present_def)
  have h2: "isTokenExpired ex_env (clock ex_world) (dropboxTokenExpiresAt ex_account)
              default_bufferMinutes"
    by (simp add: isTokenExpired_def ex_account_def Date_of_string_def
        ex_env_def ex_parse_def new_Date_def max_time_def ex_world_def default_bufferMinutes_def)
  have h3: "dropboxRefreshToken ex_account = Some ''R1''"
    by (simp add: ex_account_def)
  have h4: "''R1'' \<noteq> []" by simp
  have h5: "isAvailable ex_service"
    by (simp add: isAvailable_def ex_service_def)
  have sched: "map Run [0..<3] @ [Run 2, Tick 250, Run 0, Run 1]
                 = [Run 0, Run 1, Run 2, Run 2, Tick 250, Run 0, Run 1]"
    by (simp add: upt_rec)
  have calls: "replicate 3 (Called (Some ex_account))
                 = [Called (Some ex_account), Called (Some ex_account), Called (Some ex_account)]"
    by (simp add: numeral_3_eq_3)
  have rq: "requests ex_world @ replicate 3 ''R1'' = [''R1'', ''R1'', ''R1'']"
    by (simp add: ex_world_def numeral_3_eq_3)
  from every_caller_posts_its_own_request[OF h1 h2 h3 h4 h5, of 3 "[Run 2, Tick 250, Run 0, Run 1]"]
  have "requests (fst (run ex_env ex_service [Run 0, Run 1, Run 2, Run 2, Tick 250, Run 0, Run 1]
                    (ex_world, [Called (Some ex_account), Called (Some ex_account),
                                Called (Some ex_account)])))
     = [''R1'', ''R1'', ''R1'']"
    unfolding sched calls rq .
  with h1 h2 h3 h5 show ?thesis by blast
qed

text \<open>
  Two calls made together against an endpoint that mints a token per request: two
  requests are posted, and the two callers are handed different access tokens.
\<close>

theorem two_callers_two_exchanges:
  "requests (fst (run ex_env_minting ex_service [Run 0, Run 1, Tick 250, Run 0, Run 1]
      (ex_world, [Called (Some ex_account), Called (Some ex_account)]))) = [''R1'', ''R1''] \<and>
   map received (snd (run ex_env_minting ex_service [Run 0, Run 1, Tick 250, Run 0, Run 1]
      (ex_world, [Called (Some ex_account), Called (Some ex_account)])))
     = [Some ''A2'', Some ''A3'']"
  by (simp add: run_def ensureValidToken_begin_def ensureValidToken_resume_def
      Account_update_def Let_def present_def isTokenExpired_def Date_of_string_def new_Date_def
      max_time_def default_bufferMinutes_def isAvailable_def js_or_def merge_colors_def
      ex_env_minting_def ex_env_def ex_service_def ex_world_def ex_account_def ex_parse_def
      ex_response_def)

subsection \<open>C10: what a refresh leaves alone\<close>

text \<open>
  C10, as amended. A refresh that succeeds leaves the \<^verbatim>\<open>id\<close> and \<^verbatim>\<open>createdAt\<close> of the
  account's row, and every other row, as they were; it writes \<^verbatim>\<open>brandLogo\<close> and
  \<^verbatim>\<open>brandColors\<close> into the row from the account in hand (the colours through
  \<^verbatim>\<open>JSON.stringify\<close>), so that these two are what the row held before only if the
  account in hand still agreed with the row. The returned account has the
  \<^verbatim>\<open>id\<close>, \<^verbatim>\<open>brandLogo\<close>, \<^verbatim>\<open>brandColors\<close> and \<^verbatim>\<open>createdAt\<close> of the account in hand.
\<close>

theorem refresh_leaves_other_fields:
  assumes "present (dropboxAccessToken a)"
    and "isTokenExpired e (clock w) (dropboxTokenExpiresAt a) default_bufferMinutes"
    and "dropboxRefreshToken a = Some rt" "rt \<noteq> []"
    and "isAvailable svc"
    and "provider e (requests w) rt = Responded d"
    and "ToNumber e (expires_in d) = Some n"
    and "\<bar>clock w + int (latency e) + n * 1000\<bar> \<le> max_time"
    and "db_write_error e = None"
    and "db w (acc_id a) = Some r"
  shows "\<exists>a' w' r'.
           ensureValidToken e svc w (Some a) = (Inr a', w') \<and>
           requests w' = requests w @ [rt] \<and>
           db w' (acc_id a) = Some r' \<and>
           row_id r' = row_id r \<and> row_createdAt r' = row_createdAt r \<and>
           row_brandLogo r' = brandLogo a \<and>
           row_brandColors r' = stringify e (brandColors a) \<and>
           (\<forall>k. k \<noteq> acc_id a \<longrightarrow> db w' k = db w k) \<and>
           acc_id a' = acc_id a \<and> brandLogo a' = brandLogo a \<and>
           brandColors a' = brandColors a \<and> createdAt a' = createdAt a"
  unfolding ensureValidToken_stale[OF assms(1,2,3,4)]
    refreshAccessToken_responded[OF assms(5,4,6,7,8)]
  using assms(9,10)
  by (simp add: Account_update_def Let_def merge_colors_def)

theorem refresh_leaves_other_fields_witness:
  "present (dropboxAccessToken ex_account) \<and>
   isTokenExpired ex_env (clock ex_world_edited) (dropboxTokenExpiresAt ex_account)
     default_bufferMinutes \<and>
   dropboxRefreshToken ex_account = Some ''R1'' \<and>
   isAvailable ex_service \<and>
   provider ex_env (requests ex_world_edited) ''R1'' = Responded (ex_response ''A2'') \<and>
   db ex_world_edited (acc_id ex_account) = Some ex_row_edited \<and>
   brandLogo ex_account = None \<and>
   row_brandLogo ex_row_edited = Some ''/uploads/logo-v2.png'' \<and>
   (\<exists>a' w' r'. ensureValidToken ex_env ex_service ex_world_edited (Some ex_account) = (Inr a', w') \<and>
      requests w' = [''R1''] \<and>
      db w' ''default_account'' = Some r' \<and>
      row_id r' = ''default_account'' \<and> row_createdAt r' = ''2023-11-01T00:00:00.000Z'' \<and>
      row_brandLogo r' = None \<and> row_brandColors r' = ''{}'' \<and>
      acc_id a' = ''default_account'' \<and> brandLogo a' = None \<and>
      brandColors a' = ''{}'' \<and> createdAt a' = ''2023-11-01T00:00:00.000Z'')"
proof -
  have h1: "present (dropboxAccessToken ex_account)"
    by (simp add: ex_account_def present_def)
  have h2: "isTokenExpired ex_env (clock ex_world_edited) (dropboxTokenExpiresAt ex_account)
              default_bufferMinutes"
    by (simp add: isTokenExpired_def ex_account_def Date_of_string_def ex_env_def ex_parse_def
        new_Date_def max_time_def ex_world_edited_def ex_world_def default_bufferMinutes_def)
  have h3: "dropboxRefreshToken ex_account = Some ''R1''"
    by (simp add: ex_account_def)
  have h4: "''R1'' \<noteq> []" by simp
  have h5: "isAvailable ex_service"
    by (simp add: isAvailable_def ex_service_def)
  have h6: "provider ex_env (requests ex_world_edited) ''R1'' = Responded (ex_response ''A2'')"
    by (simp add: ex_env_def)
  have h7: "ToNumber ex_env (expires_in (ex_response ''A2'')) = Some 3600"
    by (simp add: ex_response_def)
  have h8: "\<bar>clock ex_world_edited + int (latency ex_env) + 3600 * 1000\<bar> \<le> max_time"
    by (simp add: ex_world_edited_def ex_world_def ex_env_def max_time_def)
  have h9: "db_write_error ex_env = None"
    by (simp add: ex_env_def)
  have h10: "db ex_world_edited (acc_id ex_account) = Some ex_row_edited"
    by (simp add: ex_world_edited_def ex_account_def)
  have logo: "brandLogo ex_account = None"
    "row_brandLogo ex_row_edited = Some ''/uploads/logo-v2.png''"
    by (simp_all add: ex_account_def ex_row_edited_def)
  have vals: "requests ex_world_edited = []" "acc_id ex_account = ''default_account''"
    "row_id ex_row_edited = ''default_account''"
    "row_createdAt ex_row_edited = ''2023-11-01T00:00:00.000Z''"
    "stringify ex_env ''{}'' = ''{}''"
    "brandColors ex_account = ''{}''" "createdAt ex_account = ''2023-11-01T00:00:00.000Z''"
    by (simp_all add: ex_world_edited_def ex_world_def ex_account_def ex_row_edited_def
        ex_row_def ex_env_def)
  from refresh_leaves_other_fields[OF h1 h2 h3 h4 h5 h6 h7 h8 h9 h10]
  have "\<exists>a' w' r'. ensureValidToken ex_env ex_service ex_world_edited (Some ex_account) = (Inr a', w') \<and>
      requests w' = [''R1''] \<and>
      db w' ''default_account'' = Some r' \<and>
      row_id r' = ''default_account'' \<and> row_createdAt r' = ''2023-11-01T00:00:00.000Z'' \<and>
      row_brandLogo r' = None \<and> row_brandColors r' = ''{}'' \<and>
      acc_id a' = ''default_account'' \<and> brandLogo a' = None \<and>
      brandColors a' = ''{}'' \<and> createdAt a' = ''2023-11-01T00:00:00.000Z''"
    unfolding vals logo by auto
  with h1 h2 h3 h5 h6 h10 logo show ?thesis by blast
qed

text \<open>
  The claim as first stated has \<^verbatim>\<open>brandLogo\<close> unchanged in the persisted record. Here
  a logo was saved to the row after the account in hand was loaded without one; the
  refresh writes the account's empty logo over it.
\<close>

theorem edited_row_brand_logo_overwritten:
  "brandLogo ex_account = None \<and>
   db ex_world_edited ''default_account'' = Some ex_row_edited \<and>
   row_brandLogo ex_row_edited = Some ''/uploads/logo-v2.png'' \<and>
   received (Finished (fst (ensureValidToken ex_env ex_service ex_world_edited (Some ex_account))))
     = Some ''A2'' \<and>
   map_option row_brandLogo
     (db (snd (ensureValidToken ex_env ex_service ex_world_edited (Some ex_account)))
         ''default_account'') = Some None"
  by (simp add: ensureValidToken_def refreshAccessToken_def Account_update_def Let_def
      present_def isTokenExpired_def Date_of_string_def new_Date_def max_time_def
      default_bufferMinutes_def isAvailable_def js_or_def merge_colors_def
      ex_env_def ex_service_def ex_world_edited_def ex_world_def ex_row_edited_def
      ex_account_def ex_parse_def ex_response_def)

end
